theory Spec2Isabelle
  imports Complex_Main
begin

section \<open>Data model\<close>

text \<open>
  The program keeps its data in pandas frames whose cells are floating-point numbers.
  A cell is modelled as an optional real: \<open>None\<close> stands for NaN (what \<open>pd.isna\<close>,
  \<open>dropna\<close> and \<open>fillna\<close> look at), \<open>Some v\<close> for a finite value.  Rounding is not
  modelled; the two places where the source divides by a value that can be zero are
  written out case by case.
\<close>

type_synonym cell = "real option"

text \<open>The three string constants \<open>"BUY"\<close>, \<open>"SELL"\<close>, \<open>"HOLD"\<close> of the source.\<close>

datatype signal = BUY | SELL | HOLD

text \<open>One downloaded weekly bar; only \<open>Close\<close> and \<open>Volume\<close> are ever read.\<close>

record bar =
  bar_close :: real
  bar_volume :: real

text \<open>
  A column label of a frame.  The downloaded frame has two-level labels
  (\<open>('Close', 'AAPL')\<close>); a column added by \<open>data["SMA"] = ...\<close> gets the label
  \<open>('SMA', '')\<close>.  After \<open>data.columns = [col[0] for col in data.columns]\<close> the labels
  are plain strings.
\<close>

datatype label = Tuple "string list" | Plain string

text \<open>One row of the frame, with the columns the code reads or writes.\<close>

record row =
  Close :: cell
  Volume :: cell
  SMA :: cell
  EMA12 :: cell
  EMA26 :: cell
  MACD :: cell
  Signal :: cell
  RSI :: cell
  Volatility :: cell
  AvgVolume :: cell

record frame =
  columns :: "label list"
  rows :: "row list"

text \<open>\<open>ib.positions()\<close>: entries with \<open>pos.contract.symbol\<close> and \<open>pos.position\<close>.\<close>

record position =
  contract_symbol :: string
  pos_quantity :: real

text \<open>\<open>MarketOrder(action, totalQuantity)\<close>.\<close>

record order =
  action :: signal
  totalQuantity :: real

text \<open>
  The broker session \<open>ib\<close>: the positions it reports and the orders handed to
  \<open>ib.placeOrder\<close>, each with the symbol of its contract.
\<close>

record broker =
  positions :: "position list"
  placed :: "(string \<times> order) list"

section \<open>Column labels\<close>

text \<open>\<open>name in data.columns\<close> and the lookup \<open>data[name]\<close>: a two-level label
  matches on its first level.\<close>

fun label_matches :: "string \<Rightarrow> label \<Rightarrow> bool" where
  "label_matches name (Tuple []) = False"
| "label_matches name (Tuple (x # xs)) = (x = name)"
| "label_matches name (Plain s) = (s = name)"

definition col_present :: "label list \<Rightarrow> string \<Rightarrow> bool" where
  "col_present cols name = list_ex (label_matches name) cols"

text \<open>\<open>col[0]\<close>: the first level of a tuple, the first character of a string;
  \<open>None\<close> is the IndexError on an empty one.\<close>

fun first_level :: "label \<Rightarrow> label option" where
  "first_level (Tuple []) = None"
| "first_level (Tuple (x # xs)) = Some (Plain x)"
| "first_level (Plain []) = None"
| "first_level (Plain (c # cs)) = Some (Plain [c])"

text \<open>\<open>[col[0] for col in data.columns]\<close>; \<open>None\<close> when one \<open>col[0]\<close> raises.\<close>

fun flatten_columns :: "label list \<Rightarrow> label list option" where
  "flatten_columns [] = Some []"
| "flatten_columns (c # cs) =
     (case first_level c of
        None \<Rightarrow> None
      | Some c' \<Rightarrow> (case flatten_columns cs of None \<Rightarrow> None | Some cs' \<Rightarrow> Some (c' # cs')))"

definition required_columns :: "string list" where
  "required_columns = [''Close'', ''SMA'', ''MACD'', ''Signal'', ''RSI'']"

section \<open>Order placement\<close>

text \<open>\<open>sum(pos.position for pos in positions if pos.contract.symbol == stock_symbol)\<close>\<close>

definition current_position :: "position list \<Rightarrow> string \<Rightarrow> real" where
  "current_position ps stock_symbol =
     sum_list (map pos_quantity (filter (\<lambda>pos. contract_symbol pos = stock_symbol) ps))"

text \<open>
  The \<open>if action == "BUY" ... elif action == "SELL" ...\<close> of \<open>place_order\<close>: the order
  built, or \<open>None\<close> on an early return.  For any other action the name \<open>order\<close> is unbound
  at \<open>ib.placeOrder(stock, order)\<close>; the exception is caught and nothing is placed.
\<close>

definition build_order :: "signal \<Rightarrow> real \<Rightarrow> order option" where
  "build_order act cur =
     (if act = BUY then
        (if cur > 0 then None else Some \<lparr>action = BUY, totalQuantity = 10\<rparr>)
      else if act = SELL then
        (if cur \<le> 0 then None else Some \<lparr>action = SELL, totalQuantity = cur\<rparr>)
      else None)"

text \<open>\<open>place_order\<close>: returns the order handed to \<open>ib.placeOrder\<close> (if any) and the
  session afterwards.\<close>

definition place_order :: "broker \<Rightarrow> string \<Rightarrow> signal \<Rightarrow> order option \<times> broker" where
  "place_order ib stock_symbol act =
     (case build_order act (current_position (positions ib) stock_symbol) of
        None \<Rightarrow> (None, ib)
      | Some ord \<Rightarrow> (Some ord, ib\<lparr>placed := placed ib @ [(stock_symbol, ord)]\<rparr>))"

section \<open>Signal evaluation\<close>

text \<open>\<open>dropna(subset=required_columns)\<close> keeps the rows in which the five required
  cells are all defined.\<close>

definition complete :: "row \<Rightarrow> bool" where
  "complete r \<longleftrightarrow>
     Close r \<noteq> None \<and> SMA r \<noteq> None \<and> MACD r \<noteq> None \<and> Signal r \<noteq> None \<and> RSI r \<noteq> None"

text \<open>The two conditions on the latest row.  A comparison with NaN is false.\<close>

definition cell_gt :: "cell \<Rightarrow> cell \<Rightarrow> bool" where
  "cell_gt a b = (case (a, b) of (Some x, Some y) \<Rightarrow> x > y | _ \<Rightarrow> False)"

definition cell_lt :: "cell \<Rightarrow> cell \<Rightarrow> bool" where
  "cell_lt a b = (case (a, b) of (Some x, Some y) \<Rightarrow> x < y | _ \<Rightarrow> False)"

definition buy_condition :: "row \<Rightarrow> bool" where
  "buy_condition latest \<longleftrightarrow>
     cell_gt (Close latest) (SMA latest) \<and> cell_gt (MACD latest) (Signal latest)
     \<and> cell_gt (RSI latest) (Some 50)"

definition sell_condition :: "row \<Rightarrow> bool" where
  "sell_condition latest \<longleftrightarrow>
     cell_lt (Close latest) (SMA latest) \<and> cell_lt (MACD latest) (Signal latest)
     \<and> cell_lt (RSI latest) (Some 50)"

text \<open>The \<open>if ... elif ...\<close> on the latest row, followed by \<open>return "HOLD"\<close>.\<close>

definition decide :: "row \<Rightarrow> signal" where
  "decide latest =
     (if buy_condition latest then BUY else if sell_condition latest then SELL else HOLD)"

text \<open>
  \<open>evaluate_trading_signals\<close>.  The assignment to \<open>data.columns\<close> changes the caller's
  frame, so the frame is returned with the signal; \<open>dropna\<close> rebinds the local name only.
  Any exception ends in \<open>return "HOLD"\<close>; the list comprehension raises before the
  assignment, so the frame is then unchanged.
\<close>

definition evaluate_trading_signals :: "frame \<Rightarrow> signal \<times> frame" where
  "evaluate_trading_signals data =
     (case flatten_columns (columns data) of
        None \<Rightarrow> (HOLD, data)
      | Some cols \<Rightarrow>
          (let data1 = data\<lparr>columns := cols\<rparr> in
           if \<not> list_all (col_present cols) required_columns then (HOLD, data1)
           else
             (case filter complete (rows data1) of
                [] \<Rightarrow> (HOLD, data1)
              | kept \<Rightarrow> (decide (last kept), data1))))"

text \<open>The same rule with the two branches tested in the other order.\<close>

definition decide_sell_first :: "row \<Rightarrow> signal" where
  "decide_sell_first latest =
     (if sell_condition latest then SELL else if buy_condition latest then BUY else HOLD)"

section \<open>Liquidity filter\<close>

text \<open>
  The branches of \<open>filter_stocks\<close>: the final comparison holds or fails, the
  \<open>pd.isna\<close> test rejects, or a lookup raises (KeyError for a missing column,
  IndexError for \<open>iloc[-1]\<close> on an empty frame) and the handler returns \<open>False\<close>.
\<close>

datatype filter_branch = Passed | Below_threshold | Invalid_value | Raised

definition filter_stocks_branch :: "frame \<Rightarrow> real \<Rightarrow> real \<Rightarrow> filter_branch" where
  "filter_stocks_branch data min_volume min_volatility =
     (if \<not> col_present (columns data) ''AvgVolume'' \<or> rows data = []
         \<or> \<not> col_present (columns data) ''Volatility''
      then Raised
      else
        (let avg_volume = AvgVolume (last (rows data));
             volatility = Volatility (last (rows data))
         in case (avg_volume, volatility) of
              (Some v, Some s) \<Rightarrow>
                (if v > min_volume \<and> s > min_volatility then Passed else Below_threshold)
            | _ \<Rightarrow> Invalid_value))"

definition filter_stocks :: "frame \<Rightarrow> real \<Rightarrow> real \<Rightarrow> bool" where
  "filter_stocks data min_volume min_volatility \<longleftrightarrow>
     filter_stocks_branch data min_volume min_volatility = Passed"

text \<open>The default arguments \<open>min_volume=1_000_000\<close>, \<open>min_volatility=0.02\<close>.\<close>

definition default_min_volume :: real where
  "default_min_volume = 1000000"

definition default_min_volatility :: real where
  "default_min_volatility = 2 / 100"

section \<open>Series operations\<close>

definition mean :: "real list \<Rightarrow> real" where
  "mean xs = sum_list xs / real (length xs)"

text \<open>The sample standard deviation (\<open>ddof=1\<close>) that \<open>rolling(...).std()\<close> computes.\<close>

definition sample_std :: "real list \<Rightarrow> real" where
  "sample_std xs = sqrt (sum_list (map (\<lambda>x. (x - mean xs)\<^sup>2) xs) / real (length xs - 1))"

text \<open>The \<open>w\<close> entries ending at index \<open>i\<close>.\<close>

definition window :: "nat \<Rightarrow> nat \<Rightarrow> 'a list \<Rightarrow> 'a list" where
  "window w i xs = take w (drop (Suc i - w) xs)"

text \<open>
  \<open>series.rolling(window=w).agg()\<close> with the default \<open>min_periods = w\<close>: undefined until
  \<open>w\<close> entries are available and whenever the window holds an undefined entry.
\<close>

definition rolling :: "(real list \<Rightarrow> real) \<Rightarrow> nat \<Rightarrow> cell list \<Rightarrow> cell list" where
  "rolling agg w xs =
     map (\<lambda>i. if Suc i < w then None
              else (let ws = window w i xs in
                    if list_all (\<lambda>c. c \<noteq> None) ws then Some (agg (map the ws)) else None))
         [0..<length xs]"

text \<open>
  \<open>series.ewm(span=n, adjust=False).mean()\<close> on a series without undefined entries:
  \<open>y\<^sub>0 = x\<^sub>0\<close>, \<open>y\<^sub>t = (1 - \<alpha>) y\<^sub>t\<^sub>-\<^sub>1 + \<alpha> x\<^sub>t\<close> with \<open>\<alpha> = 2 / (n + 1)\<close>.
\<close>

fun ewm_from :: "real \<Rightarrow> real \<Rightarrow> real list \<Rightarrow> real list" where
  "ewm_from \<alpha> prev [] = []"
| "ewm_from \<alpha> prev (x # xs) = (let y = (1 - \<alpha>) * prev + \<alpha> * x in y # ewm_from \<alpha> y xs)"

fun ewm_mean :: "nat \<Rightarrow> real list \<Rightarrow> real list" where
  "ewm_mean n [] = []"
| "ewm_mean n (x # xs) = x # ewm_from (2 / (real n + 1)) x xs"

text \<open>\<open>series.diff(1)\<close>: the first entry is undefined.\<close>

fun diff1 :: "real list \<Rightarrow> cell list" where
  "diff1 [] = []"
| "diff1 (x # xs) = None # map2 (\<lambda>a b. Some (b - a)) (x # xs) xs"

text \<open>
  \<open>series.pct_change()\<close>: \<open>x\<^sub>t / x\<^sub>t\<^sub>-\<^sub>1 - 1\<close>, the first entry undefined.  After a
  price of exactly 0 the quotient is not a finite number; the entry is then taken as
  undefined.
\<close>

fun pct_change :: "real list \<Rightarrow> cell list" where
  "pct_change [] = []"
| "pct_change (x # xs) =
     None # map2 (\<lambda>a b. if a = 0 then None else Some (b / a - 1)) (x # xs) xs"

text \<open>\<open>delta.where(delta > 0, 0)\<close> and \<open>-delta.where(delta < 0, 0)\<close>: where the
  condition is false (also on an undefined entry) the value is 0.\<close>

definition gains :: "cell list \<Rightarrow> real list" where
  "gains delta = map (\<lambda>d. case d of None \<Rightarrow> 0 | Some v \<Rightarrow> if v > 0 then v else 0) delta"

definition losses :: "cell list \<Rightarrow> real list" where
  "losses delta = map (\<lambda>d. case d of None \<Rightarrow> 0 | Some v \<Rightarrow> - (if v < 0 then v else 0)) delta"

text \<open>\<open>fillna(method="ffill")\<close> and \<open>fillna(value)\<close>.\<close>

fun ffill_from :: "cell \<Rightarrow> cell list \<Rightarrow> cell list" where
  "ffill_from prev [] = []"
| "ffill_from prev (None # xs) = prev # ffill_from prev xs"
| "ffill_from prev (Some v # xs) = Some v # ffill_from (Some v) xs"

definition ffill :: "cell list \<Rightarrow> cell list" where
  "ffill xs = ffill_from None xs"

definition fillna :: "real \<Rightarrow> cell list \<Rightarrow> cell list" where
  "fillna d xs = map (\<lambda>c. case c of None \<Rightarrow> Some d | Some v \<Rightarrow> Some v) xs"

subsection \<open>Floating-point division in the RSI formula\<close>

text \<open>
  \<open>rs = avg_gain / avg_loss\<close> divides by an average that can be 0, and
  \<open>100 - (100 / (1 + rs))\<close> then computes with an infinity or a NaN.  These values and
  the three operations follow IEEE 754 (the sign of a zero is not modelled: a zero
  divisor counts as \<open>+0\<close>).
\<close>

datatype xreal = Fin real | PInf | NInf | NaN

fun xneg :: "xreal \<Rightarrow> xreal" where
  "xneg (Fin x) = Fin (- x)"
| "xneg PInf = NInf"
| "xneg NInf = PInf"
| "xneg NaN = NaN"

fun xadd :: "xreal \<Rightarrow> xreal \<Rightarrow> xreal" where
  "xadd (Fin x) (Fin y) = Fin (x + y)"
| "xadd NaN _ = NaN"
| "xadd _ NaN = NaN"
| "xadd PInf NInf = NaN"
| "xadd NInf PInf = NaN"
| "xadd PInf _ = PInf"
| "xadd _ PInf = PInf"
| "xadd NInf _ = NInf"
| "xadd _ NInf = NInf"

definition xsub :: "xreal \<Rightarrow> xreal \<Rightarrow> xreal" where
  "xsub a b = xadd a (xneg b)"

fun xdiv :: "xreal \<Rightarrow> xreal \<Rightarrow> xreal" where
  "xdiv (Fin x) (Fin y) =
     (if y \<noteq> 0 then Fin (x / y) else if x = 0 then NaN else if x > 0 then PInf else NInf)"
| "xdiv NaN _ = NaN"
| "xdiv _ NaN = NaN"
| "xdiv (Fin x) PInf = Fin 0"
| "xdiv (Fin x) NInf = Fin 0"
| "xdiv PInf (Fin y) = (if y \<ge> 0 then PInf else NInf)"
| "xdiv NInf (Fin y) = (if y \<ge> 0 then NInf else PInf)"
| "xdiv _ _ = NaN"

fun xreal_of_cell :: "cell \<Rightarrow> xreal" where
  "xreal_of_cell None = NaN"
| "xreal_of_cell (Some v) = Fin v"

text \<open>Back to a cell.  An infinity has no cell in this model; \<open>rsi_value\<close> never
  yields one (lemma \<open>rsi_value_cases\<close> below).\<close>

fun cell_of_xreal :: "xreal \<Rightarrow> cell" where
  "cell_of_xreal (Fin v) = Some v"
| "cell_of_xreal _ = None"

text \<open>\<open>rs = avg_gain / avg_loss\<close>; \<open>100 - (100 / (1 + rs))\<close>, for one index.\<close>

definition rsi_value :: "cell \<Rightarrow> cell \<Rightarrow> xreal" where
  "rsi_value avg_gain avg_loss =
     (let rs = xdiv (xreal_of_cell avg_gain) (xreal_of_cell avg_loss)
      in xsub (Fin 100) (xdiv (Fin 100) (xadd (Fin 1) rs)))"

section \<open>Indicator computation\<close>

text \<open>
  \<open>calculate_indicators\<close> after the download: \<open>data\<close> is the downloaded series of
  bars, oldest first.  The columns are computed one by one as in the source; each has
  one entry per bar.
\<close>

definition closes :: "bar list \<Rightarrow> real list" where
  "closes data = map bar_close data"

definition volumes :: "bar list \<Rightarrow> real list" where
  "volumes data = map bar_volume data"

text \<open>\<open>sma_window = min(20, len(data))\<close>;
  \<open>data["Close"].rolling(window=sma_window).mean()\<close>\<close>

definition sma_window :: "bar list \<Rightarrow> nat" where
  "sma_window data = min 20 (length data)"

definition sma_raw :: "bar list \<Rightarrow> cell list" where
  "sma_raw data = rolling mean (sma_window data) (map Some (closes data))"

definition ema12 :: "bar list \<Rightarrow> real list" where
  "ema12 data = ewm_mean 12 (closes data)"

definition ema26 :: "bar list \<Rightarrow> real list" where
  "ema26 data = ewm_mean 26 (closes data)"

definition macd_line :: "bar list \<Rightarrow> real list" where
  "macd_line data = map2 (\<lambda>a b. a - b) (ema12 data) (ema26 data)"

definition signal_line :: "bar list \<Rightarrow> real list" where
  "signal_line data = ewm_mean 9 (macd_line data)"

text \<open>The \<open>if len(data) >= 26 ... else ...\<close> around the MACD columns; in the
  \<open>else\<close> branch \<open>MACD\<close> and \<open>Signal\<close> are set to \<open>None\<close> and no EMA column exists.\<close>

definition ema12_raw :: "bar list \<Rightarrow> cell list" where
  "ema12_raw data =
     (if length data \<ge> 26 then map Some (ema12 data) else replicate (length data) None)"

definition ema26_raw :: "bar list \<Rightarrow> cell list" where
  "ema26_raw data =
     (if length data \<ge> 26 then map Some (ema26 data) else replicate (length data) None)"

definition macd_raw :: "bar list \<Rightarrow> cell list" where
  "macd_raw data =
     (if length data \<ge> 26 then map Some (macd_line data) else replicate (length data) None)"

definition signal_raw :: "bar list \<Rightarrow> cell list" where
  "signal_raw data =
     (if length data \<ge> 26 then map Some (signal_line data) else replicate (length data) None)"

text \<open>The RSI block: \<open>delta\<close>, \<open>gain\<close>, \<open>loss\<close>, their 14-period rolling means and the
  formula; in the \<open>else\<close> branch the column is set to \<open>None\<close>.\<close>

definition avg_gain :: "bar list \<Rightarrow> cell list" where
  "avg_gain data = rolling mean 14 (map Some (gains (diff1 (closes data))))"

definition avg_loss :: "bar list \<Rightarrow> cell list" where
  "avg_loss data = rolling mean 14 (map Some (losses (diff1 (closes data))))"

definition rsi_raw :: "bar list \<Rightarrow> cell list" where
  "rsi_raw data =
     (if length data \<ge> 14
      then map2 (\<lambda>g l. cell_of_xreal (rsi_value g l)) (avg_gain data) (avg_loss data)
      else replicate (length data) None)"

text \<open>\<open>data["Close"].pct_change().rolling(window=10).std()\<close> and
  \<open>data["Volume"].rolling(window=10).mean()\<close>\<close>

definition volatility_raw :: "bar list \<Rightarrow> cell list" where
  "volatility_raw data = rolling sample_std 10 (pct_change (closes data))"

definition avg_volume_raw :: "bar list \<Rightarrow> cell list" where
  "avg_volume_raw data = rolling mean 10 (map Some (volumes data))"

text \<open>The labels of the downloaded frame and of an added column.\<close>

definition downloaded_columns :: "string \<Rightarrow> label list" where
  "downloaded_columns stock_symbol =
     map (\<lambda>c. Tuple [c, stock_symbol]) [''Close'', ''High'', ''Low'', ''Open'', ''Volume'']"

definition added_column :: "string \<Rightarrow> label" where
  "added_column name = Tuple [name, []]"

definition indicator_columns :: "string \<Rightarrow> bar list \<Rightarrow> label list" where
  "indicator_columns stock_symbol data =
     downloaded_columns stock_symbol @ [added_column ''SMA'']
     @ (if length data \<ge> 26 then [added_column ''EMA12'', added_column ''EMA26''] else [])
     @ map added_column [''MACD'', ''Signal'', ''RSI'', ''Volatility'', ''AvgVolume'']"

text \<open>The frame after the six \<open>fillna\<close> assignments (lines 64 to 69).\<close>

definition indicator_row :: "bar list \<Rightarrow> nat \<Rightarrow> row" where
  "indicator_row data i =
     \<lparr>Close = Some (closes data ! i),
      Volume = Some (volumes data ! i),
      SMA = ffill (sma_raw data) ! i,
      EMA12 = ema12_raw data ! i,
      EMA26 = ema26_raw data ! i,
      MACD = fillna 0 (macd_raw data) ! i,
      Signal = fillna 0 (signal_raw data) ! i,
      RSI = fillna 50 (rsi_raw data) ! i,
      Volatility = fillna 0 (volatility_raw data) ! i,
      AvgVolume = fillna 0 (avg_volume_raw data) ! i\<rparr>"

definition indicator_frame :: "string \<Rightarrow> bar list \<Rightarrow> frame" where
  "indicator_frame stock_symbol data =
     \<lparr>columns = indicator_columns stock_symbol data,
      rows = map (indicator_row data) [0..<length data]\<rparr>"

text \<open>
  \<open>calculate_indicators\<close>, given the download's result.  Both failures are a
  \<open>return None\<close> in the source; they differ in the message printed: "Insufficient data"
  (line 27) and "Missing required columns" (line 75).
\<close>

datatype failure = Insufficient_data | Missing_columns

definition calculate_indicators :: "string \<Rightarrow> bar list \<Rightarrow> failure + frame" where
  "calculate_indicators stock_symbol data =
     (if data = [] \<or> length data < 26 then Inl Insufficient_data
      else
        (let result = indicator_frame stock_symbol data in
         if list_ex (\<lambda>col. \<not> col_present (columns result) col) required_columns
         then Inl Missing_columns
         else Inr result))"

section \<open>The scan\<close>

text \<open>What one iteration of the loop in \<open>monitor_and_trade\<close> did for its symbol: skipped
  it before the filter, skipped it at the filter, or evaluated the signal and possibly
  handed an order to the broker.\<close>

datatype outcome = Skipped_no_data | Skipped_by_filter | Evaluated signal "order option"

definition process_symbol :: "broker \<Rightarrow> string \<Rightarrow> bar list \<Rightarrow> outcome \<times> broker" where
  "process_symbol ib stock_symbol bars =
     (case calculate_indicators stock_symbol bars of
        Inl _ \<Rightarrow> (Skipped_no_data, ib)
      | Inr data \<Rightarrow>
          if length (rows data) < 10 then (Skipped_no_data, ib)
          else if \<not> filter_stocks data default_min_volume default_min_volatility
          then (Skipped_by_filter, ib)
          else
            (let (sig, data') = evaluate_trading_signals data in
             if sig = BUY then
               (let (ord, ib') = place_order ib stock_symbol BUY in (Evaluated sig ord, ib'))
             else if sig = SELL then
               (let (ord, ib') = place_order ib stock_symbol SELL in (Evaluated sig ord, ib'))
             else (Evaluated sig None, ib)))"

text \<open>The loop over the universe; each symbol comes with what its download returns.\<close>

fun monitor_and_trade :: "broker \<Rightarrow> (string \<times> bar list) list \<Rightarrow> outcome list \<times> broker" where
  "monitor_and_trade ib [] = ([], ib)"
| "monitor_and_trade ib ((stock_symbol, bars) # rest) =
     (let (out, ib1) = process_symbol ib stock_symbol bars;
          (outs, ib2) = monitor_and_trade ib1 rest
      in (out # outs, ib2))"

section \<open>Sample inputs\<close>

text \<open>Concrete sessions and series at which the theorems below are instantiated.\<close>

definition flat_position :: broker where
  "flat_position = \<lparr>positions = [], placed = []\<rparr>"

definition long_position :: broker where
  "long_position =
     \<lparr>positions = [\<lparr>contract_symbol = ''AAPL'', pos_quantity = 300\<rparr>,
                   \<lparr>contract_symbol = ''MSFT'', pos_quantity = 7\<rparr>,
                   \<lparr>contract_symbol = ''AAPL'', pos_quantity = 200\<rparr>],
      placed = []\<rparr>"

definition ten_bars :: "bar list" where
  "ten_bars = replicate 10 \<lparr>bar_close = 100, bar_volume = 2000000\<rparr>"

definition flat_bars :: "bar list" where
  "flat_bars = replicate 26 \<lparr>bar_close = 100, bar_volume = 2000000\<rparr>"

definition sample_row :: row where
  "sample_row =
     \<lparr>Close = Some 10, Volume = Some 5, SMA = Some 9, EMA12 = Some 1, EMA26 = Some 1,
      MACD = Some 1, Signal = Some 0, RSI = Some 60, Volatility = Some (3 / 100),
      AvgVolume = Some 2000000\<rparr>"

definition sample_frame :: frame where
  "sample_frame =
     \<lparr>columns = indicator_columns ''AAPL'' flat_bars,
      rows = [sample_row\<lparr>Close := Some 8, RSI := Some 40\<rparr>, sample_row,
              sample_row\<lparr>RSI := None, AvgVolume := None\<rparr>]\<rparr>"

definition rising_bars :: "bar list" where
  "rising_bars = map (\<lambda>c. \<lparr>bar_close = c, bar_volume = 2000000\<rparr>)
     [100, 102, 104, 106, 108, 110, 112, 114, 116, 118, 120, 122, 124, 126, 128, 130, 132,
      134, 136, 138, 140, 142, 144, 146, 148, 150]"

section \<open>Order placement: properties\<close>

lemma build_order_quantity_pos: "build_order act cur = Some ord \<Longrightarrow> totalQuantity ord > 0"
  by (auto simp: build_order_def split: if_splits)

text \<open>
  C1.  \<open>place_order\<close> follows the reconciliation table for every net position and
  signal: BUY while long places nothing, BUY while flat or short places a BUY of 10
  shares, SELL while long places a SELL of exactly the net position, SELL while flat or
  short places nothing; a HOLD places nothing.  Every order placed has a positive
  quantity.
\<close>

theorem place_order_reconciliation:
  "(s = BUY \<and> current_position (positions ib) stock_symbol > 0 \<longrightarrow> place_order ib stock_symbol s = (None, ib))
   \<and> (s = BUY \<and> current_position (positions ib) stock_symbol \<le> 0 \<longrightarrow>
        place_order ib stock_symbol s =
          (Some \<lparr>action = BUY, totalQuantity = 10\<rparr>,
           ib\<lparr>placed := placed ib @ [(stock_symbol, \<lparr>action = BUY, totalQuantity = 10\<rparr>)]\<rparr>))
   \<and> (s = SELL \<and> current_position (positions ib) stock_symbol > 0 \<longrightarrow>
        place_order ib stock_symbol s =
          (Some \<lparr>action = SELL, totalQuantity = current_position (positions ib) stock_symbol\<rparr>,
           ib\<lparr>placed := placed ib @
              [(stock_symbol, \<lparr>action = SELL, totalQuantity = current_position (positions ib) stock_symbol\<rparr>)]\<rparr>))
   \<and> (s = SELL \<and> current_position (positions ib) stock_symbol \<le> 0 \<longrightarrow> place_order ib stock_symbol s = (None, ib))
   \<and> (s = HOLD \<longrightarrow> place_order ib stock_symbol s = (None, ib))
   \<and> (\<forall>ord. fst (place_order ib stock_symbol s) = Some ord \<longrightarrow> totalQuantity ord > 0)"
proof -
  have q: "\<forall>ord. fst (place_order ib stock_symbol s) = Some ord \<longrightarrow> totalQuantity ord > 0"
    by (auto simp: place_order_def split: option.splits dest: build_order_quantity_pos)
  show ?thesis
    using q by (cases s) (simp_all add: place_order_def build_order_def)
qed

theorem place_order_reconciliation_witness:
  "place_order flat_position ''AAPL'' SELL = (None, flat_position)
   \<and> fst (place_order flat_position ''AAPL'' BUY) = Some \<lparr>action = BUY, totalQuantity = 10\<rparr>
   \<and> fst (place_order long_position ''AAPL'' SELL) = Some \<lparr>action = SELL, totalQuantity = 500\<rparr>
   \<and> place_order long_position ''AAPL'' BUY = (None, long_position)"
  using place_order_reconciliation [of SELL flat_position "''AAPL''"]
    place_order_reconciliation [of BUY flat_position "''AAPL''"]
    place_order_reconciliation [of SELL long_position "''AAPL''"]
    place_order_reconciliation [of BUY long_position "''AAPL''"]
  by (simp add: current_position_def flat_position_def long_position_def)

lemma cell_gt_lt_exclusive: "\<not> (cell_gt a b \<and> cell_lt a b)"
  by (auto simp: cell_gt_def cell_lt_def split: option.splits)

text \<open>
  C9.  On no row do the BUY condition and the SELL condition hold together, so testing
  the SELL branch first gives the same signal as the source's order, and the signal is
  BUY (SELL) exactly when the BUY (SELL) condition holds.
\<close>

theorem buy_sell_exclusive:
  "\<not> (buy_condition r \<and> sell_condition r) \<and> decide_sell_first r = decide r
   \<and> (decide r = BUY \<longleftrightarrow> buy_condition r) \<and> (decide r = SELL \<longleftrightarrow> sell_condition r)"
proof -
  have ex: "\<not> (buy_condition r \<and> sell_condition r)"
    using cell_gt_lt_exclusive [of "Close r" "SMA r"]
    by (auto simp: buy_condition_def sell_condition_def)
  then show ?thesis
    by (auto simp: decide_def decide_sell_first_def)
qed

section \<open>Lengths and labels\<close>

lemma length_rolling [simp]: "length (rolling agg w xs) = length xs"
  by (simp add: rolling_def)

lemma length_fillna [simp]: "length (fillna d xs) = length xs"
  by (simp add: fillna_def)

lemma length_ffill_from [simp]: "length (ffill_from prev xs) = length xs"
  by (induction prev xs rule: ffill_from.induct) simp_all

lemma length_ffill [simp]: "length (ffill xs) = length xs"
  by (simp add: ffill_def)

lemma fillna_nth: "i < length xs \<Longrightarrow>
  fillna d xs ! i = (case xs ! i of None \<Rightarrow> Some d | Some v \<Rightarrow> Some v)"
  by (simp add: fillna_def)

lemma fillna_nth_defined: "i < length xs \<Longrightarrow> fillna d xs ! i \<noteq> None"
  by (simp add: fillna_nth split: option.splits)

lemma length_diff1 [simp]: "length (diff1 xs) = length xs"
  by (cases xs) simp_all

lemma length_pct_change [simp]: "length (pct_change xs) = length xs"
  by (cases xs) simp_all

lemma length_ewm_from [simp]: "length (ewm_from a prev xs) = length xs"
  by (induction xs arbitrary: prev) (simp_all add: Let_def)

lemma length_ewm_mean [simp]: "length (ewm_mean n xs) = length xs"
  by (cases xs) simp_all

lemma length_raw_columns [simp]:
  "length (sma_raw data) = length data"
  "length (macd_raw data) = length data"
  "length (signal_raw data) = length data"
  "length (rsi_raw data) = length data"
  "length (volatility_raw data) = length data"
  "length (avg_volume_raw data) = length data"
  by (simp_all add: sma_raw_def macd_raw_def signal_raw_def rsi_raw_def volatility_raw_def
      avg_volume_raw_def closes_def volumes_def macd_line_def signal_line_def ema12_def
      ema26_def avg_gain_def avg_loss_def gains_def losses_def)

lemma flatten_indicator_columns:
  "flatten_columns (indicator_columns stock_symbol data) =
     Some (map Plain ([''Close'', ''High'', ''Low'', ''Open'', ''Volume'', ''SMA'']
       @ (if length data \<ge> 26 then [''EMA12'', ''EMA26''] else [])
       @ [''MACD'', ''Signal'', ''RSI'', ''Volatility'', ''AvgVolume'']))"
  by (simp add: indicator_columns_def downloaded_columns_def added_column_def)

lemma required_in_indicator_columns:
  "list_all (col_present (indicator_columns stock_symbol data)) required_columns"
  by (simp add: indicator_columns_def downloaded_columns_def added_column_def
      required_columns_def col_present_def)

lemma filter_columns_in_indicator_columns:
  "col_present (indicator_columns stock_symbol data) ''AvgVolume''"
  "col_present (indicator_columns stock_symbol data) ''Volatility''"
  by (simp_all add: indicator_columns_def downloaded_columns_def added_column_def
      col_present_def)

lemma required_in_flattened:
  "flatten_columns (indicator_columns stock_symbol data) = Some cols \<Longrightarrow>
   list_all (col_present cols) required_columns"
  unfolding flatten_indicator_columns
  by (auto simp: required_columns_def col_present_def)

lemma calculate_indicators_enough:
  "length data \<ge> 26 \<Longrightarrow>
   calculate_indicators stock_symbol data = Inr (indicator_frame stock_symbol data)"
  using required_in_indicator_columns [of stock_symbol data]
  by (auto simp: calculate_indicators_def indicator_frame_def Let_def list_ex_iff list_all_iff)

lemma calculate_indicators_Inr:
  "calculate_indicators stock_symbol data = Inr f \<Longrightarrow>
   length data \<ge> 26 \<and> f = indicator_frame stock_symbol data"
  by (auto simp: calculate_indicators_def Let_def split: if_splits)

lemma rows_indicator_frame [simp]:
  "length (rows (indicator_frame stock_symbol data)) = length data"
  by (simp add: indicator_frame_def)

section \<open>Insufficient history\<close>

text \<open>
  C3.  A series of fewer than 26 bars (the empty one included) makes
  \<open>calculate_indicators\<close> fail with "Insufficient data", and the scan then skips the
  symbol before the filter: no filter evaluation, no signal, no order, the broker session
  unchanged, and the scan goes on with the remaining symbols.
\<close>

theorem insufficient_history_skips:
  assumes "length bars < 26"
  shows "calculate_indicators stock_symbol bars = Inl Insufficient_data
    \<and> process_symbol ib stock_symbol bars = (Skipped_no_data, ib)
    \<and> monitor_and_trade ib ((stock_symbol, bars) # rest) =
        (Skipped_no_data # fst (monitor_and_trade ib rest), snd (monitor_and_trade ib rest))"
proof -
  have c: "calculate_indicators stock_symbol bars = Inl Insufficient_data"
    using assms by (simp add: calculate_indicators_def)
  then have p: "process_symbol ib stock_symbol bars = (Skipped_no_data, ib)"
    by (simp add: process_symbol_def)
  show ?thesis
    using c p by (simp add: split_beta)
qed

theorem insufficient_history_skips_witness:
  "length ten_bars < 26
   \<and> calculate_indicators ''AAPL'' ten_bars = Inl Insufficient_data
   \<and> process_symbol long_position ''AAPL'' ten_bars = (Skipped_no_data, long_position)
   \<and> monitor_and_trade long_position [(''AAPL'', ten_bars)] = ([Skipped_no_data], long_position)"
proof -
  have h: "length ten_bars < 26" by (simp add: ten_bars_def)
  show ?thesis
    using h insufficient_history_skips [OF h, of "''AAPL''" long_position "[]"] by simp
qed

section \<open>Running the pipeline again\<close>







section \<open>Liquidity filter: properties\<close>



section \<open>The filter on the engine's output\<close>

lemma indicator_row_filled:
  "i < length data \<Longrightarrow>
   AvgVolume (indicator_row data i) \<noteq> None \<and> Volatility (indicator_row data i) \<noteq> None"
  by (simp add: indicator_row_def fillna_nth_defined)

text \<open>
  C10.  In every frame that \<open>calculate_indicators\<close> returns, no entry of the columns
  \<open>AvgVolume\<close> and \<open>Volatility\<close> is undefined, so \<open>filter_stocks\<close> on such a frame
  never takes its \<open>pd.isna\<close> branch (nor its exception handler).
\<close>

theorem engine_output_passes_nan_check:
  assumes "calculate_indicators stock_symbol data = Inr f"
  shows "(\<forall>r \<in> set (rows f). AvgVolume r \<noteq> None \<and> Volatility r \<noteq> None)
    \<and> filter_stocks_branch f min_volume min_volatility \<noteq> Invalid_value
    \<and> filter_stocks_branch f min_volume min_volatility \<noteq> Raised"
proof -
  from assms have n: "length data \<ge> 26" and f: "f = indicator_frame stock_symbol data"
    using calculate_indicators_Inr by blast+
  have all: "\<forall>r \<in> set (rows f). AvgVolume r \<noteq> None \<and> Volatility r \<noteq> None"
    unfolding f using indicator_row_filled [of _ data] by (auto simp: indicator_frame_def)
  have ne: "rows f \<noteq> []"
    using n unfolding f by (auto simp: indicator_frame_def)
  then have "last (rows f) \<in> set (rows f)" by simp
  with all have l: "AvgVolume (last (rows f)) \<noteq> None \<and> Volatility (last (rows f)) \<noteq> None"
    by blast
  have cols: "col_present (columns f) ''AvgVolume''" "col_present (columns f) ''Volatility''"
    unfolding f by (simp_all add: indicator_frame_def filter_columns_in_indicator_columns)
  have br: "filter_stocks_branch f min_volume min_volatility \<noteq> Invalid_value
      \<and> filter_stocks_branch f min_volume min_volatility \<noteq> Raised"
    using l ne cols
    by (auto simp: filter_stocks_branch_def Let_def split: option.splits)
  show ?thesis
    using all br by blast
qed

theorem engine_output_passes_nan_check_witness:
  "calculate_indicators ''AAPL'' flat_bars = Inr (indicator_frame ''AAPL'' flat_bars)
   \<and> Volatility (last (rows (indicator_frame ''AAPL'' flat_bars))) \<noteq> None
   \<and> AvgVolume (last (rows (indicator_frame ''AAPL'' flat_bars))) \<noteq> None
   \<and> filter_stocks_branch (indicator_frame ''AAPL'' flat_bars) 1000000 0.02 \<noteq> Invalid_value"
proof -
  have n: "length flat_bars \<ge> 26" by (simp add: flat_bars_def)
  have c: "calculate_indicators ''AAPL'' flat_bars = Inr (indicator_frame ''AAPL'' flat_bars)"
    using n by (rule calculate_indicators_enough)
  have "rows (indicator_frame ''AAPL'' flat_bars) \<noteq> []"
    using n by (auto simp: indicator_frame_def)
  then have "last (rows (indicator_frame ''AAPL'' flat_bars))
      \<in> set (rows (indicator_frame ''AAPL'' flat_bars))" by simp
  then show ?thesis
    using c engine_output_passes_nan_check [OF c, of 1000000 "0.02"] by blast
qed

text \<open>The \<open>pd.isna\<close> branch itself is reachable, on a frame whose latest average
  volume is undefined.\<close>

lemma nan_branch_reachable:
  "filter_stocks_branch sample_frame default_min_volume default_min_volatility = Invalid_value"
  by (simp add: filter_stocks_branch_def sample_frame_def sample_row_def
      filter_columns_in_indicator_columns)

section \<open>Signal evaluation: properties\<close>

lemma last_filter_latest:
  assumes "i < length xs" "P (xs ! i)" "\<forall>j. i < j \<and> j < length xs \<longrightarrow> \<not> P (xs ! j)"
  shows "filter P xs \<noteq> [] \<and> last (filter P xs) = xs ! i"
proof -
  have split: "xs = take i xs @ xs ! i # drop (Suc i) xs"
    using assms(1) by (simp add: id_take_nth_drop)
  have "\<forall>x \<in> set (drop (Suc i) xs). \<not> P x"
  proof
    fix x assume "x \<in> set (drop (Suc i) xs)"
    then obtain k where k: "k < length (drop (Suc i) xs)" "x = drop (Suc i) xs ! k"
      by (auto simp: in_set_conv_nth)
    then have "x = xs ! (Suc i + k)" "Suc i + k < length xs" by auto
    with assms(3) show "\<not> P x" by auto
  qed
  then have none: "filter P (drop (Suc i) xs) = []"
    by (simp add: filter_empty_conv)
  have "filter P xs = filter P (take i xs) @ [xs ! i]"
    using assms(2) none by (subst split) simp
  then show ?thesis by simp
qed

lemma evaluate_on_engine_layout:
  assumes "columns data = indicator_columns stock_symbol bars"
  shows "fst (evaluate_trading_signals data) =
     (case filter complete (rows data) of [] \<Rightarrow> HOLD | kept \<Rightarrow> decide (last kept))"
proof -
  obtain cols where c: "flatten_columns (columns data) = Some cols"
    using assms flatten_indicator_columns by simp
  then have "list_all (col_present cols) required_columns"
    using assms required_in_flattened by simp
  with c show ?thesis
    by (simp add: evaluate_trading_signals_def Let_def split: list.splits)
qed

lemma decide_complete:
  assumes "complete r"
  shows "(decide r = BUY \<longleftrightarrow>
            the (Close r) > the (SMA r) \<and> the (MACD r) > the (Signal r) \<and> the (RSI r) > 50)
       \<and> (decide r = SELL \<longleftrightarrow>
            the (Close r) < the (SMA r) \<and> the (MACD r) < the (Signal r) \<and> the (RSI r) < 50)"
  using assms
  by (auto simp: decide_def buy_condition_def sell_condition_def cell_gt_def cell_lt_def
      complete_def)

text \<open>
  C2.  On a frame with the column labels that \<open>calculate_indicators\<close> produces,
  \<open>evaluate_trading_signals\<close> looks only at the rows whose five required cells are
  all defined: with \<open>i\<close> the index of the last such row, the signal is BUY exactly
  when close > sma, macd > signal line and rsi > 50 hold in row \<open>i\<close>, SELL exactly when
  close < sma, macd < signal line and rsi < 50 hold there, and HOLD otherwise; when no
  row has all five cells defined the signal is HOLD.
\<close>

theorem evaluate_trading_signals_rule:
  assumes "columns data = indicator_columns stock_symbol bars"
  shows "((\<forall>r \<in> set (rows data). \<not> complete r) \<longrightarrow> fst (evaluate_trading_signals data) = HOLD)
    \<and> (\<forall>i. i < length (rows data) \<and> complete (rows data ! i)
            \<and> (\<forall>j. i < j \<and> j < length (rows data) \<longrightarrow> \<not> complete (rows data ! j)) \<longrightarrow>
          (fst (evaluate_trading_signals data) = BUY \<longleftrightarrow>
             the (Close (rows data ! i)) > the (SMA (rows data ! i))
             \<and> the (MACD (rows data ! i)) > the (Signal (rows data ! i))
             \<and> the (RSI (rows data ! i)) > 50)
        \<and> (fst (evaluate_trading_signals data) = SELL \<longleftrightarrow>
             the (Close (rows data ! i)) < the (SMA (rows data ! i))
             \<and> the (MACD (rows data ! i)) < the (Signal (rows data ! i))
             \<and> the (RSI (rows data ! i)) < 50)
        \<and> (fst (evaluate_trading_signals data) \<in> {BUY, SELL, HOLD}))"
proof (intro conjI allI impI)
  assume "\<forall>r \<in> set (rows data). \<not> complete r"
  then have "filter complete (rows data) = []"
    by (simp add: filter_empty_conv)
  then show "fst (evaluate_trading_signals data) = HOLD"
    by (simp add: evaluate_on_engine_layout [OF assms])
next
  fix i
  assume h: "i < length (rows data) \<and> complete (rows data ! i)
            \<and> (\<forall>j. i < j \<and> j < length (rows data) \<longrightarrow> \<not> complete (rows data ! j))"
  then have l: "filter complete (rows data) \<noteq> []"
      "last (filter complete (rows data)) = rows data ! i"
    using last_filter_latest [of i "rows data" complete] by simp_all
  have e: "fst (evaluate_trading_signals data) = decide (rows data ! i)"
  proof (cases "filter complete (rows data)")
    case Nil
    with l(1) show ?thesis by simp
  next
    case (Cons x xs)
    with l(2) show ?thesis
      by (simp add: evaluate_on_engine_layout [OF assms])
  qed
  show "fst (evaluate_trading_signals data) = BUY \<longleftrightarrow>
             the (Close (rows data ! i)) > the (SMA (rows data ! i))
             \<and> the (MACD (rows data ! i)) > the (Signal (rows data ! i))
             \<and> the (RSI (rows data ! i)) > 50"
    using h decide_complete [of "rows data ! i"] e by simp
  show "fst (evaluate_trading_signals data) = SELL \<longleftrightarrow>
             the (Close (rows data ! i)) < the (SMA (rows data ! i))
             \<and> the (MACD (rows data ! i)) < the (Signal (rows data ! i))
             \<and> the (RSI (rows data ! i)) < 50"
    using h decide_complete [of "rows data ! i"] e by simp
  show "fst (evaluate_trading_signals data) \<in> {BUY, SELL, HOLD}"
    by (cases "fst (evaluate_trading_signals data)") simp_all
qed

theorem evaluate_trading_signals_rule_witness:
  "columns sample_frame = indicator_columns ''AAPL'' flat_bars
   \<and> complete (rows sample_frame ! 1) \<and> \<not> complete (rows sample_frame ! 2)
   \<and> fst (evaluate_trading_signals sample_frame) = BUY"
proof -
  have c: "columns sample_frame = indicator_columns ''AAPL'' flat_bars"
    by (simp add: sample_frame_def)
  have one: "complete (rows sample_frame ! 1)" "\<not> complete (rows sample_frame ! 2)"
    by (simp_all add: sample_frame_def complete_def sample_row_def)
  have later: "\<forall>j. 1 < j \<and> j < length (rows sample_frame) \<longrightarrow> \<not> complete (rows sample_frame ! j)"
  proof (intro allI impI)
    fix j assume "1 < j \<and> j < length (rows sample_frame)"
    then have "j = 2" by (simp add: sample_frame_def)
    then show "\<not> complete (rows sample_frame ! j)"
      using one(2) by simp
  qed
  have vals: "the (Close (rows sample_frame ! 1)) > the (SMA (rows sample_frame ! 1))
             \<and> the (MACD (rows sample_frame ! 1)) > the (Signal (rows sample_frame ! 1))
             \<and> the (RSI (rows sample_frame ! 1)) > 50"
    by (simp add: sample_frame_def sample_row_def)
  have len: "1 < length (rows sample_frame)"
    by (simp add: sample_frame_def)
  from evaluate_trading_signals_rule [OF c]
  have "1 < length (rows sample_frame) \<and> complete (rows sample_frame ! 1)
            \<and> (\<forall>j. 1 < j \<and> j < length (rows sample_frame) \<longrightarrow> \<not> complete (rows sample_frame ! j)) \<longrightarrow>
          (fst (evaluate_trading_signals sample_frame) = BUY \<longleftrightarrow>
             the (Close (rows sample_frame ! 1)) > the (SMA (rows sample_frame ! 1))
             \<and> the (MACD (rows sample_frame ! 1)) > the (Signal (rows sample_frame ! 1))
             \<and> the (RSI (rows sample_frame ! 1)) > 50)"
    by blast
  with len one(1) later vals have "fst (evaluate_trading_signals sample_frame) = BUY"
    by blast
  then show ?thesis using c one by blast
qed

text \<open>
  The assignment to \<open>data.columns\<close> is visible to the caller.  Evaluating the frame
  that a first evaluation left behind takes \<open>col[0]\<close> of plain strings, finds no
  column \<open>Close\<close> among the one-letter labels and returns HOLD whatever the rows hold.
  The scan never does so: each iteration builds its own frame.
\<close>

lemma columns_after_evaluate:
  assumes "columns data = indicator_columns stock_symbol bars"
  shows "columns (snd (evaluate_trading_signals data)) =
     map Plain ([''Close'', ''High'', ''Low'', ''Open'', ''Volume'', ''SMA'']
       @ (if length bars \<ge> 26 then [''EMA12'', ''EMA26''] else [])
       @ [''MACD'', ''Signal'', ''RSI'', ''Volatility'', ''AvgVolume''])"
proof -
  let ?cols = "map Plain ([''Close'', ''High'', ''Low'', ''Open'', ''Volume'', ''SMA'']
       @ (if length bars \<ge> 26 then [''EMA12'', ''EMA26''] else [])
       @ [''MACD'', ''Signal'', ''RSI'', ''Volatility'', ''AvgVolume''])"
  have f: "flatten_columns (columns data) = Some ?cols"
    unfolding assms by (rule flatten_indicator_columns)
  show ?thesis
    unfolding evaluate_trading_signals_def f
    by (simp add: Let_def split: list.splits)
qed

lemma evaluate_flattened_holds:
  assumes "columns data =
     map Plain ([''Close'', ''High'', ''Low'', ''Open'', ''Volume'', ''SMA'']
       @ (if n \<ge> (26::nat) then [''EMA12'', ''EMA26''] else [])
       @ [''MACD'', ''Signal'', ''RSI'', ''Volatility'', ''AvgVolume''])"
  shows "fst (evaluate_trading_signals data) = HOLD"
proof -
  obtain cols where c: "flatten_columns (columns data) = Some cols"
      and nc: "\<not> col_present cols ''Close''"
    unfolding assms by (cases "26 \<le> n") (simp_all add: col_present_def)
  have "\<not> list_all (col_present cols) required_columns"
    using nc by (simp add: required_columns_def)
  then show ?thesis
    unfolding evaluate_trading_signals_def c by (simp add: Let_def)
qed

lemma evaluate_again_holds:
  assumes "columns data = indicator_columns stock_symbol bars"
  shows "fst (evaluate_trading_signals (snd (evaluate_trading_signals data))) = HOLD"
  using columns_after_evaluate [OF assms] by (rule evaluate_flattened_holds)

section \<open>Fallback values\<close>

lemma rolling_nth:
  "i < length xs \<Longrightarrow>
   rolling agg w xs ! i =
     (if Suc i < w then None
      else if list_all (\<lambda>c. c \<noteq> None) (window w i xs)
           then Some (agg (map the (window w i xs))) else None)"
  by (simp add: rolling_def Let_def)




lemma indicator_frame_row:
  "i < length data \<Longrightarrow> rows (indicator_frame stock_symbol data) ! i = indicator_row data i"
  by (simp add: indicator_frame_def)

lemma fillna_nth_value:
  "i < length xs \<Longrightarrow> fillna d xs ! i = Some (case xs ! i of None \<Rightarrow> d | Some v \<Rightarrow> v)"
  by (simp add: fillna_nth split: option.splits)



lemma rolling_map_Some_nth:
  "i < length xs \<Longrightarrow> w \<le> Suc i \<Longrightarrow>
   rolling agg w (map Some xs) ! i = Some (agg (window w i xs))"
proof -
  assume i: "i < length xs" and w: "w \<le> Suc i"
  have win: "window w i (map Some xs) = map Some (window w i xs)"
    by (simp add: window_def take_map drop_map)
  have "list_all (\<lambda>c. c \<noteq> None) (map Some (window w i xs))"
    by (simp add: list_all_iff)
  then show ?thesis
    using i w by (simp add: rolling_nth win comp_def)
qed

lemma rolling_early: "i < length xs \<Longrightarrow> Suc i < w \<Longrightarrow> rolling agg w xs ! i = None"
  by (simp add: rolling_nth)

lemma raw_columns_early:
  "i < length data \<Longrightarrow> Suc i < sma_window data \<Longrightarrow> sma_raw data ! i = None"
  "i < length data \<Longrightarrow> Suc i < 14 \<Longrightarrow> rsi_raw data ! i = None"
  "i < length data \<Longrightarrow> Suc i < 10 \<Longrightarrow> volatility_raw data ! i = None"
  "i < length data \<Longrightarrow> Suc i < 10 \<Longrightarrow> avg_volume_raw data ! i = None"
  by (simp_all add: sma_raw_def rsi_raw_def volatility_raw_def avg_volume_raw_def closes_def
      volumes_def rolling_early avg_gain_def avg_loss_def gains_def losses_def rsi_value_def
      xsub_def)


section \<open>Series shorter than 14 bars\<close>

text \<open>
  A series of ten bars is turned away whole by the 26-bar guard, although its 10-period
  SMA is computable (it is 100 at the last bar); no frame with an SMA column and without
  an RSI column is returned.  The lines after the guard would moreover not leave the RSI
  undefined: \<open>fillna(50)\<close> sets it to 50.
\<close>

theorem short_series_counterexample:
  "length ten_bars < 14
   \<and> calculate_indicators ''AAPL'' ten_bars = Inl Insufficient_data
   \<and> sma_window ten_bars = 10 \<and> sma_raw ten_bars ! 9 = Some 100
   \<and> RSI (indicator_row ten_bars 9) = Some 50"
proof -
  have n: "length ten_bars = 10" by (simp add: ten_bars_def)
  have w: "sma_window ten_bars = 10" by (simp add: sma_window_def n)
  have s: "sma_raw ten_bars ! 9 = Some 100"
    unfolding sma_raw_def w
    by (subst rolling_map_Some_nth)
      (simp_all add: closes_def ten_bars_def window_def mean_def sum_list_replicate)
  have r: "RSI (indicator_row ten_bars 9) = Some 50"
    by (simp add: indicator_row_def fillna_nth_value raw_columns_early n)
  show ?thesis
    using n w s r by (simp add: calculate_indicators_def)
qed

text \<open>
  C6 (amended).  For every series shorter than 14 bars \<open>calculate_indicators\<close> fails
  with "Insufficient data" for the whole instrument: no frame is returned, hence neither
  SMA nor MACD, and the scan skips the symbol.  The RSI block's branch for short series
  lies behind the 26-bar guard; the lines after the guard would default every RSI entry
  of such a series to 50.
\<close>

theorem short_series_rejected:
  assumes "length data < 14"
  shows "calculate_indicators stock_symbol data = Inl Insufficient_data
    \<and> process_symbol ib stock_symbol data = (Skipped_no_data, ib)
    \<and> (\<forall>i < length data. RSI (indicator_row data i) = Some 50)"
proof -
  have c: "calculate_indicators stock_symbol data = Inl Insufficient_data"
    using assms by (simp add: calculate_indicators_def)
  then have p: "process_symbol ib stock_symbol data = (Skipped_no_data, ib)"
    by (simp add: process_symbol_def)
  have "\<forall>i < length data. RSI (indicator_row data i) = Some 50"
    using assms by (simp add: indicator_row_def fillna_nth_value raw_columns_early)
  with c p show ?thesis by blast
qed

theorem short_series_rejected_witness:
  "length ten_bars < 14
   \<and> calculate_indicators ''AAPL'' ten_bars = Inl Insufficient_data
   \<and> process_symbol flat_position ''AAPL'' ten_bars = (Skipped_no_data, flat_position)"
proof -
  have n: "length ten_bars < 14" by (simp add: ten_bars_def)
  show ?thesis
    using n short_series_rejected [OF n, of "''AAPL''" flat_position] by blast
qed

section \<open>Range of the RSI\<close>

lemma gains_nonneg: "x \<in> set (gains delta) \<Longrightarrow> 0 \<le> x"
  by (auto simp: gains_def split: option.splits)

lemma losses_nonneg: "x \<in> set (losses delta) \<Longrightarrow> 0 \<le> x"
  by (auto simp: losses_def split: option.splits)

lemma set_window: "set (window w i xs) \<subseteq> set xs"
  unfolding window_def
  by (meson set_take_subset set_drop_subset subset_trans)

lemma mean_nonneg: "(\<And>x. x \<in> set xs \<Longrightarrow> 0 \<le> x) \<Longrightarrow> 0 \<le> mean xs"
  by (simp add: mean_def sum_list_nonneg)

lemma rolling_mean_nonneg:
  assumes "\<And>x. x \<in> set xs \<Longrightarrow> 0 \<le> x" "i < length xs"
    "rolling mean w (map Some xs) ! i = Some v"
  shows "0 \<le> v"
proof (cases "Suc i < w")
  case True
  then have "rolling mean w (map Some xs) ! i = None"
    using assms(2) by (simp add: rolling_early)
  with assms(3) show ?thesis by simp
next
  case False
  then have "w \<le> Suc i" by simp
  then have "rolling mean w (map Some xs) ! i = Some (mean (window w i xs))"
    using assms(2) by (rule rolling_map_Some_nth [rotated])
  with assms(3) have v: "v = mean (window w i xs)" by simp
  have "0 \<le> mean (window w i xs)"
  proof (rule mean_nonneg)
    fix x assume "x \<in> set (window w i xs)"
    then have "x \<in> set xs" using set_window [of w i xs] by (rule rev_subsetD)
    then show "0 \<le> x" by (rule assms(1))
  qed
  then show ?thesis by (simp only: v)
qed

lemma avg_gain_nonneg: "i < length data \<Longrightarrow> avg_gain data ! i = Some g \<Longrightarrow> 0 \<le> g"
  unfolding avg_gain_def
  by (rule rolling_mean_nonneg [of "gains (diff1 (closes data))"])
    (simp_all add: gains_nonneg gains_def closes_def)

lemma avg_loss_nonneg: "i < length data \<Longrightarrow> avg_loss data ! i = Some l \<Longrightarrow> 0 \<le> l"
  unfolding avg_loss_def
  by (rule rolling_mean_nonneg [of "losses (diff1 (closes data))"])
    (simp_all add: losses_nonneg losses_def closes_def)

lemma rsi_value_undefined: "rsi_value None l = NaN" "rsi_value g None = NaN"
  by (cases l; cases g; simp add: rsi_value_def xsub_def)+

lemma rsi_value_cases:
  assumes "0 \<le> g" "0 \<le> l"
  shows "rsi_value (Some g) (Some l) =
     (if l = 0 then (if g = 0 then NaN else Fin 100) else Fin (100 - 100 / (1 + g / l)))"
proof -
  have "l \<noteq> 0 \<Longrightarrow> 1 + g / l \<noteq> 0"
  proof -
    assume "l \<noteq> 0"
    then have "0 \<le> g / l" using assms by simp
    then show ?thesis by linarith
  qed
  then show ?thesis
    using assms by (auto simp: rsi_value_def xsub_def)
qed

lemma rsi_formula_range:
  assumes "0 \<le> g" "0 < l"
  shows "0 \<le> 100 - 100 / (1 + g / l) \<and> 100 - 100 / (1 + g / l) \<le> (100::real)"
proof -
  have d: "1 \<le> 1 + g / l" using assms by simp
  then have "100 / (1 + g / l) \<le> 100"
    by (simp add: divide_le_eq)
  moreover have "0 \<le> 100 / (1 + g / l)" using d by simp
  ultimately show ?thesis by simp
qed

lemma rsi_value_range:
  assumes "0 \<le> g" "0 \<le> l" "cell_of_xreal (rsi_value (Some g) (Some l)) = Some v"
  shows "0 \<le> v \<and> v \<le> 100"
proof (cases "l = 0")
  case True
  with assms show ?thesis
    by (auto simp: rsi_value_cases split: if_splits)
next
  case False
  then have "0 < l" using assms(2) by simp
  from rsi_formula_range [OF assms(1) this]
  have r: "0 \<le> 100 - 100 / (1 + g / l) \<and> 100 - 100 / (1 + g / l) \<le> 100" .
  have "v = 100 - 100 / (1 + g / l)"
    using assms False by (simp add: rsi_value_cases)
  then show ?thesis using r by (simp only:)
qed

lemma length_avg [simp]:
  "length (avg_gain data) = length data" "length (avg_loss data) = length data"
  by (simp_all add: avg_gain_def avg_loss_def gains_def losses_def closes_def)

lemma rsi_raw_nth:
  "i < length data \<Longrightarrow> 14 \<le> length data \<Longrightarrow>
   rsi_raw data ! i = cell_of_xreal (rsi_value (avg_gain data ! i) (avg_loss data ! i))"
  by (simp add: rsi_raw_def)

lemma rsi_raw_range:
  assumes "i < length data" "rsi_raw data ! i = Some v"
  shows "0 \<le> v \<and> v \<le> 100"
proof (cases "14 \<le> length data")
  case False
  then have "rsi_raw data ! i = None"
    using assms(1) by (simp add: rsi_raw_def)
  with assms(2) show ?thesis by simp
next
  case True
  with assms have e: "cell_of_xreal (rsi_value (avg_gain data ! i) (avg_loss data ! i)) = Some v"
    by (simp add: rsi_raw_nth)
  obtain g where g: "avg_gain data ! i = Some g"
  proof (cases "avg_gain data ! i")
    case None
    with e show ?thesis by (simp add: rsi_value_undefined)
  next
    case (Some a)
    then show ?thesis by (rule that)
  qed
  obtain l where l: "avg_loss data ! i = Some l"
  proof (cases "avg_loss data ! i")
    case None
    with e show ?thesis by (simp add: rsi_value_undefined)
  next
    case (Some a)
    then show ?thesis by (rule that)
  qed
  have g0: "0 \<le> g" using assms(1) g by (rule avg_gain_nonneg)
  have l0: "0 \<le> l" using assms(1) l by (rule avg_loss_nonneg)
  from e have "cell_of_xreal (rsi_value (Some g) (Some l)) = Some v"
    by (simp only: g l)
  with g0 l0 show ?thesis by (rule rsi_value_range)
qed

text \<open>
  C4.  Every defined RSI value lies between 0 and 100: the computed ones of any series
  of finite closes, and all entries of the RSI column of a returned frame (which are all
  defined).  Where the 14-period average loss is exactly 0 and the average gain is
  positive, the computed RSI and the frame's RSI are 100: the quotient is an infinity
  and \<open>100 / (1 + rs)\<close> is 0.  Arithmetic is exact here; rounding is not modelled.
\<close>

theorem rsi_bounds:
  "(calculate_indicators stock_symbol data = Inr f \<longrightarrow>
      (\<forall>r \<in> set (rows f). \<exists>v. RSI r = Some v \<and> 0 \<le> v \<and> v \<le> 100))
   \<and> (\<forall>i < length data. \<forall>v. rsi_raw data ! i = Some v \<longrightarrow> 0 \<le> v \<and> v \<le> 100)
   \<and> (\<forall>i < length data. \<forall>g. 14 \<le> length data \<and> avg_loss data ! i = Some 0
          \<and> avg_gain data ! i = Some g \<and> 0 < g \<longrightarrow>
        rsi_raw data ! i = Some 100
        \<and> RSI (rows (indicator_frame stock_symbol data) ! i) = Some 100)"
proof (intro conjI allI impI ballI)
  fix r
  assume c: "calculate_indicators stock_symbol data = Inr f" and r: "r \<in> set (rows f)"
  from c have f: "f = indicator_frame stock_symbol data"
    using calculate_indicators_Inr by blast
  from r obtain i where i: "i < length data" and ri: "r = indicator_row data i"
    unfolding f by (auto simp: indicator_frame_def)
  have v: "RSI r = Some (case rsi_raw data ! i of None \<Rightarrow> 50 | Some v \<Rightarrow> v)"
    using i by (simp add: ri indicator_row_def fillna_nth_value)
  show "\<exists>v. RSI r = Some v \<and> 0 \<le> v \<and> v \<le> 100"
  proof (cases "rsi_raw data ! i")
    case None
    with v show ?thesis by simp
  next
    case (Some a)
    with i have "0 \<le> a \<and> a \<le> 100" by (rule rsi_raw_range)
    with v Some show ?thesis by simp
  qed
next
  fix i v
  assume "i < length data" "rsi_raw data ! i = Some v"
  then show "0 \<le> v" "v \<le> 100"
    using rsi_raw_range by blast+
next
  fix i g
  assume i: "i < length data"
    and h: "14 \<le> length data \<and> avg_loss data ! i = Some 0 \<and> avg_gain data ! i = Some g \<and> 0 < g"
  then have "rsi_value (avg_gain data ! i) (avg_loss data ! i) = Fin 100"
    by (simp add: rsi_value_cases)
  then show raw: "rsi_raw data ! i = Some 100"
    using i h by (simp add: rsi_raw_nth)
  then show "RSI (rows (indicator_frame stock_symbol data) ! i) = Some 100"
    using i by (simp add: indicator_frame_row indicator_row_def fillna_nth_value)
qed

lemma rising_closes:
  "closes rising_bars =
     [100, 102, 104, 106, 108, 110, 112, 114, 116, 118, 120, 122, 124, 126, 128, 130, 132,
      134, 136, 138, 140, 142, 144, 146, 148, 150]"
  by (simp add: closes_def rising_bars_def)

lemma rising_averages:
  "avg_loss rising_bars ! 25 = Some 0" "avg_gain rising_bars ! 25 = Some 2"
proof -
  have n: "25 < length (closes rising_bars)" by (simp add: rising_closes)
  have l: "losses (diff1 (closes rising_bars)) = replicate 26 0"
    by (simp add: rising_closes losses_def numeral_eq_Suc)
  have g: "gains (diff1 (closes rising_bars)) = 0 # replicate 25 2"
    by (simp add: rising_closes gains_def numeral_eq_Suc)
  show "avg_loss rising_bars ! 25 = Some 0"
    unfolding avg_loss_def l
    by (subst rolling_map_Some_nth) (simp_all add: window_def mean_def sum_list_replicate)
  show "avg_gain rising_bars ! 25 = Some 2"
    unfolding avg_gain_def g
    by (subst rolling_map_Some_nth) (simp_all add: window_def mean_def sum_list_replicate)
qed

theorem rsi_bounds_witness:
  "calculate_indicators ''AAPL'' rising_bars = Inr (indicator_frame ''AAPL'' rising_bars)
   \<and> avg_loss rising_bars ! 25 = Some 0 \<and> avg_gain rising_bars ! 25 = Some 2
   \<and> rsi_raw rising_bars ! 25 = Some 100
   \<and> RSI (rows (indicator_frame ''AAPL'' rising_bars) ! 25) = Some 100"
proof -
  let ?f = "indicator_frame ''AAPL'' rising_bars"
  have n: "length rising_bars = 26" by (simp add: rising_bars_def)
  have c: "calculate_indicators ''AAPL'' rising_bars = Inr ?f"
    using n by (simp add: calculate_indicators_enough)
  have i: "25 < length rising_bars" and m: "14 \<le> length rising_bars"
    by (simp_all add: n)
  from rsi_bounds [of "''AAPL''" rising_bars ?f]
  have "\<forall>i < length rising_bars. \<forall>g. 14 \<le> length rising_bars
          \<and> avg_loss rising_bars ! i = Some 0
          \<and> avg_gain rising_bars ! i = Some g \<and> 0 < g \<longrightarrow>
        rsi_raw rising_bars ! i = Some 100 \<and> RSI (rows ?f ! i) = Some 100"
    by (rule conjunct2 [THEN conjunct2])
  then have "14 \<le> length rising_bars \<and> avg_loss rising_bars ! 25 = Some 0
          \<and> avg_gain rising_bars ! 25 = Some 2 \<and> (0::real) < 2 \<longrightarrow>
        rsi_raw rising_bars ! 25 = Some 100 \<and> RSI (rows ?f ! 25) = Some 100"
    using i by blast
  then have "rsi_raw rising_bars ! 25 = Some 100 \<and> RSI (rows ?f ! 25) = Some 100"
    using m rising_averages by simp
  then show ?thesis
    using c rising_averages by simp
qed

end
